theory Spec2Isabelle
  imports Main "HOL-Library.Sublist"
begin

section \<open>The ClusterFuzz deployment module of CIFuzz\<close>

text \<open>
  A shallow embedding of \<^verbatim>\<open>infra/cifuzz/clusterfuzz_deployment.py\<close>: the two
  deployment classes \<^verbatim>\<open>ClusterFuzzLite\<close> and \<^verbatim>\<open>OSSFuzz\<close>, their base class and the
  factory \<^verbatim>\<open>get_clusterfuzz_deployment\<close>.

  Python strings are modelled as \<open>string\<close>, read as the UTF-8 encoding of the text:
  concatenation, \<^verbatim>\<open>startswith\<close>, \<^verbatim>\<open>endswith\<close> and the emptiness test agree on a
  text and on its encoding. A \<^verbatim>\<open>bytes\<close> value is a \<open>string\<close> as well.
\<close>

subsection \<open>Exceptions, effects and the world\<close>

type_synonym path = string
type_synonym bytes = string

text \<open>
  The exception classes the module names or meets. All of them are subclasses of
  Python's \<^verbatim>\<open>Exception\<close>, so \<^verbatim>\<open>except Exception\<close> catches every value of \<open>exn\<close>,
  while \<^verbatim>\<open>except urllib.error.HTTPError\<close> catches class \<open>HTTPError\<close> only
  (\<^verbatim>\<open>URLError\<close> is its parent class, not a subclass). \<^verbatim>\<open>OSError\<close> and its subclass
  \<^verbatim>\<open>FileNotFoundError\<close> are what the operating system answers when a directory
  cannot be created. An exception carries its class and the text \<^verbatim>\<open>str\<close> gives for it.
\<close>

datatype exn_class =
    Exception
  | HTTPError
  | URLError
  | UnicodeDecodeError
  | AttributeError
  | OSError
  | FileNotFoundError
  | OtherError string

datatype exn = Raised (cls: exn_class) (str: string)

datatype level = DEBUG | INFO | ERROR

datatype log_arg = Str string | Err exn

text \<open>
  Everything the module does to the outside, in the order it does it: directory
  creation, log records (level, format string, arguments) and the calls to the
  collaborators with their arguments.
\<close>

datatype event =
    Makedirs path
  | Logging level string "log_arg list"
  | Filestore_download_latest_build string path
  | Filestore_upload_latest_build string path
  | Filestore_download_corpus string path
  | Filestore_upload_corpus string path
  | Download_and_unpack_zip string path
  | Urlopen string

text \<open>
  The world: the paths that exist on disk, the trace of effects so far (oldest first),
  and what the operating system answers to a request to create a directory: for the
  paths that exist, what has happened so far and the path asked for, \<open>Some\<close> exception
  when \<^verbatim>\<open>os.makedirs\<close> raises (no permission, a read-only or virtual file system, a
  file in the way, a path that is not valid) and \<open>None\<close> when it creates the directory.
  Nothing in the module removes a path, and the collaborators are taken not to remove
  one either.
\<close>

record world =
  dirs :: "path set"
  trace :: "event list"
  makedirs_error :: "path set \<Rightarrow> event list \<Rightarrow> path \<Rightarrow> exn option"

type_synonym 'a result = "(exn + 'a) \<times> world"

definition emit :: "event \<Rightarrow> world \<Rightarrow> world" where
  "emit e w = w\<lparr>trace := trace w @ [e]\<rparr>"

definition logging :: "level \<Rightarrow> string \<Rightarrow> log_arg list \<Rightarrow> world \<Rightarrow> world" where
  "logging lvl fmt args w = emit (Logging lvl fmt args) w"

definition os_path_exists :: "path \<Rightarrow> world \<Rightarrow> bool" where
  "os_path_exists p w \<longleftrightarrow> p \<in> dirs w"

text \<open>
  The directories above a path, nearest last: every non-empty part of the path that
  stands before a separator. \<open>ancestors_from\<close> walks the path with the part already read.
\<close>

fun ancestors_from :: "string \<Rightarrow> path \<Rightarrow> path list" where
  "ancestors_from seen [] = []"
| "ancestors_from seen (c # cs) =
     (if c = CHR ''/'' \<and> seen \<noteq> [] then [seen] else []) @ ancestors_from (seen @ [c]) cs"

definition ancestors :: "path \<Rightarrow> path list" where
  "ancestors p = ancestors_from [] p"

text \<open>
  \<^verbatim>\<open>os.makedirs(p, exist_ok=True)\<close>, a library function, by what it promises: either it
  raises, and the exception reaches the caller since the module catches none of them,
  or it returns and then \<open>p\<close> and the directories above it exist. The call is recorded
  in the trace either way. Directories that a failing call created on its way are not
  kept: no operation of the module reads them.
\<close>

definition os_makedirs :: "path \<Rightarrow> world \<Rightarrow> unit result" where
  "os_makedirs p w =
     (case makedirs_error w (dirs w) (trace w) p of
        Some e \<Rightarrow> (Inl e, emit (Makedirs p) w)
      | None \<Rightarrow>
          (Inr (), emit (Makedirs p) (w\<lparr>dirs := dirs w \<union> set (ancestors p) \<union> {p}\<rparr>)))"

subsection \<open>Strings, paths and URLs\<close>

definition startswith :: "string \<Rightarrow> string \<Rightarrow> bool" where
  "startswith s p \<longleftrightarrow> prefix p s"

definition endswith :: "string \<Rightarrow> string \<Rightarrow> bool" where
  "endswith s p \<longleftrightarrow> suffix p s"

text \<open>
  One step of \<^verbatim>\<open>posixpath.join\<close>: an absolute component replaces what was joined so
  far; otherwise it is appended, after a separator unless the path is empty or ends
  with one.
\<close>

definition join_component :: "string \<Rightarrow> string \<Rightarrow> string" where
  "join_component path b =
     (if startswith b ''/'' then b
      else if path = [] \<or> endswith path ''/'' then path @ b
      else path @ ''/'' @ b)"

definition os_path_join :: "string \<Rightarrow> string list \<Rightarrow> string" where
  "os_path_join a ps = foldl join_component a ps"

text \<open>
  Modelled from the spec: \<^verbatim>\<open>utils.url_join\<close> is the repository's shared URL-joining
  helper and is not among the sources. The spec writes the same \<open>a / b / c\<close> for the
  joined URL as for a joined path, so it is the POSIX join of its parts.
\<close>

definition url_join :: "string \<Rightarrow> string list \<Rightarrow> string" where
  "url_join a ps = os_path_join a ps"

text \<open>
  \<^verbatim>\<open>bytes.decode()\<close>: strict UTF-8. A byte sequence that is not well-formed UTF-8
  (a stray continuation byte, a truncated or overlong sequence, a surrogate, a code
  point above U+10FFFF) raises \<^verbatim>\<open>UnicodeDecodeError\<close>; a well-formed one decodes to
  the text it encodes, which is modelled by the same bytes.
\<close>

definition byte_in :: "char \<Rightarrow> nat \<Rightarrow> nat \<Rightarrow> bool" where
  "byte_in c lo hi \<longleftrightarrow> lo \<le> of_char c \<and> of_char c \<le> hi"

fun utf8_valid :: "bytes \<Rightarrow> bool" where
  "utf8_valid [] = True"
| "utf8_valid (c # cs) =
     (if byte_in c 0x00 0x7F then utf8_valid cs
      else if byte_in c 0xC2 0xDF then
        (case cs of
           c1 # r \<Rightarrow> byte_in c1 0x80 0xBF \<and> utf8_valid r
         | _ \<Rightarrow> False)
      else if byte_in c 0xE0 0xEF then
        (case cs of
           c1 # c2 # r \<Rightarrow>
             byte_in c1 (if byte_in c 0xE0 0xE0 then 0xA0 else 0x80)
                        (if byte_in c 0xED 0xED then 0x9F else 0xBF) \<and>
             byte_in c2 0x80 0xBF \<and> utf8_valid r
         | _ \<Rightarrow> False)
      else if byte_in c 0xF0 0xF4 then
        (case cs of
           c1 # c2 # c3 # r \<Rightarrow>
             byte_in c1 (if byte_in c 0xF0 0xF0 then 0x90 else 0x80)
                        (if byte_in c 0xF4 0xF4 then 0x8F else 0xBF) \<and>
             byte_in c2 0x80 0xBF \<and> byte_in c3 0x80 0xBF \<and> utf8_valid r
         | _ \<Rightarrow> False)
      else False)"

definition bytes_decode :: "bytes \<Rightarrow> exn + string" where
  "bytes_decode bs =
     (if utf8_valid bs then Inr bs
      else Inl (Raised UnicodeDecodeError
                  (''utf-8 codec cannot decode bytes: invalid data'')))"

subsection \<open>The configuration and the collaborators\<close>

text \<open>
  Modelled from the spec: the configuration class is not among the sources. Its
  platform is an enumeration with at least \<^verbatim>\<open>INTERNAL_GENERIC_CI\<close> and
  \<^verbatim>\<open>INTERNAL_GITHUB\<close>, and other values.
\<close>

datatype platform = INTERNAL_GENERIC_CI | INTERNAL_GITHUB | Other_platform string

record config =
  project_name :: string
  sanitizer :: string
  platform :: platform

text \<open>
  Modelled from the spec: the filestore (module \<^verbatim>\<open>filestore_utils\<close>) is a collaborator
  whose code is not among the sources. Its build operations return a boolean, its
  corpus operations return nothing and may raise (\<open>Some\<close> is the exception raised).
  What an operation answers may depend on the world it is called in.
\<close>

record filestore =
  fs_download_latest_build :: "world \<Rightarrow> string \<Rightarrow> path \<Rightarrow> bool"
  fs_upload_latest_build :: "world \<Rightarrow> string \<Rightarrow> path \<Rightarrow> bool"
  fs_download_corpus :: "world \<Rightarrow> string \<Rightarrow> path \<Rightarrow> exn option"
  fs_upload_corpus :: "world \<Rightarrow> string \<Rightarrow> path \<Rightarrow> exn option"

text \<open>
  Modelled from the spec: what the module imports. \<^verbatim>\<open>utils.GCS_BASE_URL\<close> is a
  constant of a module that is not among the sources; \<^verbatim>\<open>filestore_utils.get_filestore\<close>
  chooses the filestore of a configuration; \<^verbatim>\<open>http_utils.download_and_unpack_zip\<close>
  reports success as a boolean; \<^verbatim>\<open>urllib.request.urlopen\<close> either raises or gives a
  response, of which only the body that \<^verbatim>\<open>read()\<close> returns is kept.
\<close>

record modules =
  GCS_BASE_URL :: string
  get_filestore :: "config \<Rightarrow> filestore"
  download_and_unpack_zip :: "world \<Rightarrow> string \<Rightarrow> path \<Rightarrow> bool"
  urlopen :: "world \<Rightarrow> string \<Rightarrow> exn + bytes"

subsection \<open>BaseClusterFuzzDeployment\<close>

definition CORPUS_DIR_NAME :: string where
  "CORPUS_DIR_NAME = ''cifuzz-corpus''"

definition BUILD_DIR_NAME :: string where
  "BUILD_DIR_NAME = ''cifuzz-latest-build''"

definition get_corpus_dir :: "string \<Rightarrow> path \<Rightarrow> path" where
  "get_corpus_dir target_name parent_dir =
     os_path_join parent_dir [CORPUS_DIR_NAME, target_name]"

definition get_build_dir :: "path \<Rightarrow> path" where
  "get_build_dir parent_dir = os_path_join parent_dir [BUILD_DIR_NAME]"

subsection \<open>ClusterFuzzLite\<close>

definition BASE_BUILD_NAME :: string where
  "BASE_BUILD_NAME = ''cifuzz-build-''"

definition ClusterFuzzLite_get_build_name :: "config \<Rightarrow> string" where
  "ClusterFuzzLite_get_build_name cfg = BASE_BUILD_NAME @ sanitizer cfg"

definition ClusterFuzzLite_get_corpus_name :: "string \<Rightarrow> string" where
  "ClusterFuzzLite_get_corpus_name target_name = ''corpus-'' @ target_name"

definition ClusterFuzzLite_download_latest_build ::
  "config \<Rightarrow> filestore \<Rightarrow> path \<Rightarrow> world \<Rightarrow> path option result" where
  "ClusterFuzzLite_download_latest_build cfg fs parent_dir w =
     (let build_dir = get_build_dir parent_dir in
      if os_path_exists build_dir w then (Inr (Some build_dir), w)
      else
        case os_makedirs build_dir w of
          (Inl e, w1) \<Rightarrow> (Inl e, w1)
        | (Inr u, w1) \<Rightarrow>
            let build_name = ClusterFuzzLite_get_build_name cfg;
                ok = fs_download_latest_build fs w1 build_name build_dir;
                w2 = emit (Filestore_download_latest_build build_name build_dir) w1
            in if ok then (Inr (Some build_dir), w2) else (Inr None, w2))"

definition ClusterFuzzLite_download_corpus ::
  "config \<Rightarrow> filestore \<Rightarrow> string \<Rightarrow> path \<Rightarrow> world \<Rightarrow> path result" where
  "ClusterFuzzLite_download_corpus cfg fs target_name parent_dir w =
     (let corpus_dir = get_corpus_dir target_name parent_dir;
          w1 = logging DEBUG ''ClusterFuzzLite: downloading corpus for %s to %s.''
                 [Str target_name, Str parent_dir] w
      in case os_makedirs corpus_dir w1 of
           (Inl e, w2) \<Rightarrow> (Inl e, w2)
         | (Inr u, w2) \<Rightarrow>
             let corpus_name = ClusterFuzzLite_get_corpus_name target_name;
                 w3 = emit (Filestore_download_corpus corpus_name corpus_dir) w2
             in case fs_download_corpus fs w2 corpus_name corpus_dir of
                  Some err \<Rightarrow>
                    (Inl err,
                     logging ERROR ''Failed to download corpus for target: %s. Error: %s.''
                       [Str target_name, Str (str err)] w3)
                | None \<Rightarrow> (Inr corpus_dir, w3))"

definition ClusterFuzzLite_upload_corpus ::
  "config \<Rightarrow> filestore \<Rightarrow> string \<Rightarrow> path \<Rightarrow> world \<Rightarrow> unit result" where
  "ClusterFuzzLite_upload_corpus cfg fs target_name corpus_dir w =
     (let w1 = logging INFO ''Uploading corpus for %s'' [Str target_name] w;
          name = ClusterFuzzLite_get_corpus_name target_name;
          w2 = emit (Filestore_upload_corpus name corpus_dir) w1
      in case fs_upload_corpus fs w1 name corpus_dir of
           Some error \<Rightarrow>
             (Inr (),
              logging ERROR ''Failed to upload corpus for target: %s. Error: %s.''
                [Str target_name, Err error] w2)
         | None \<Rightarrow> (Inr (), w2))"

definition ClusterFuzzLite_upload_latest_build ::
  "config \<Rightarrow> filestore \<Rightarrow> path \<Rightarrow> world \<Rightarrow> bool result" where
  "ClusterFuzzLite_upload_latest_build cfg fs build_dir w =
     (let build_name = ClusterFuzzLite_get_build_name cfg
      in (Inr (fs_upload_latest_build fs w build_name build_dir),
          emit (Filestore_upload_latest_build build_name build_dir) w))"

subsection \<open>OSSFuzz\<close>

definition CLUSTERFUZZ_BUILDS :: string where
  "CLUSTERFUZZ_BUILDS = ''clusterfuzz-builds''"

text \<open>\<^verbatim>\<open>VERSION_STRING.format(project_name=..., sanitizer=...)\<close>.\<close>

definition VERSION_STRING :: "string \<Rightarrow> string \<Rightarrow> string" where
  "VERSION_STRING project sanitizer_name =
     project @ ''-'' @ sanitizer_name @ ''-latest.version''"

definition CORPUS_ZIP_NAME :: string where
  "CORPUS_ZIP_NAME = ''public.zip''"

definition OSSFuzz_get_latest_build_name ::
  "config \<Rightarrow> modules \<Rightarrow> world \<Rightarrow> string option result" where
  "OSSFuzz_get_latest_build_name cfg env w =
     (let version_file = VERSION_STRING (project_name cfg) (sanitizer cfg);
          version_url = url_join (GCS_BASE_URL env)
                          [CLUSTERFUZZ_BUILDS, project_name cfg, version_file];
          w1 = emit (Urlopen version_url) w
      in case urlopen env w version_url of
           Inl e \<Rightarrow>
             if cls e = HTTPError then
               (Inr None,
                logging ERROR ''Error getting latest build version for %s from: %s.''
                  [Str (project_name cfg), Str version_url] w1)
             else (Inl e, w1)
         | Inr body \<Rightarrow>
             (case bytes_decode body of
                Inl e \<Rightarrow> (Inl e, w1)
              | Inr text \<Rightarrow> (Inr (Some text), w1)))"

definition OSSFuzz_download_latest_build ::
  "config \<Rightarrow> modules \<Rightarrow> path \<Rightarrow> world \<Rightarrow> path option result" where
  "OSSFuzz_download_latest_build cfg env parent_dir w =
     (let build_dir = get_build_dir parent_dir in
      if os_path_exists build_dir w then (Inr (Some build_dir), w)
      else
        case os_makedirs build_dir w of
          (Inl e, w1) \<Rightarrow> (Inl e, w1)
        | (Inr u, w1) \<Rightarrow>
            (case OSSFuzz_get_latest_build_name cfg env w1 of
               (Inl e, w2) \<Rightarrow> (Inl e, w2)
             | (Inr None, w2) \<Rightarrow> (Inr None, w2)
             | (Inr (Some latest_build_name), w2) \<Rightarrow>
                 if latest_build_name = [] then (Inr None, w2)
                 else
                   let oss_fuzz_build_url =
                         url_join (GCS_BASE_URL env)
                           [CLUSTERFUZZ_BUILDS, project_name cfg, latest_build_name];
                       ok = download_and_unpack_zip env w2 oss_fuzz_build_url build_dir;
                       w3 = emit (Download_and_unpack_zip oss_fuzz_build_url build_dir) w2
                   in if ok then (Inr (Some build_dir), w3) else (Inr None, w3)))"

definition OSSFuzz_upload_latest_build :: "config \<Rightarrow> path \<Rightarrow> world \<Rightarrow> bool result" where
  "OSSFuzz_upload_latest_build cfg build_dir w =
     (Inl (Raised Exception ''upload_latest_build not should not be called for OSSFuzz.''),
      w)"

text \<open>Lines 208 to 212 of the source: the project-qualified name of a fuzz target.\<close>

definition project_qualified_fuzz_target_name :: "config \<Rightarrow> string \<Rightarrow> string" where
  "project_qualified_fuzz_target_name cfg target_name =
     (let qualified_name_prefix = project_name cfg @ ''_'' in
      if \<not> startswith target_name qualified_name_prefix
      then qualified_name_prefix @ target_name
      else target_name)"

definition OSSFuzz_download_corpus ::
  "config \<Rightarrow> modules \<Rightarrow> string \<Rightarrow> path \<Rightarrow> world \<Rightarrow> path result" where
  "OSSFuzz_download_corpus cfg env target_name parent_dir w =
     (let corpus_dir = get_corpus_dir target_name parent_dir in
      case os_makedirs corpus_dir w of
        (Inl e, w1) \<Rightarrow> (Inl e, w1)
      | (Inr u, w1) \<Rightarrow>
          let corpus_url =
                url_join (GCS_BASE_URL env)
                  [project_name cfg @
                     ''-backup.clusterfuzz-external.appspot.com/corpus/libFuzzer/'',
                   project_qualified_fuzz_target_name cfg target_name,
                   CORPUS_ZIP_NAME];
              ignored = download_and_unpack_zip env w1 corpus_url corpus_dir;
              w2 = emit (Download_and_unpack_zip corpus_url corpus_dir) w1
          in (Inr corpus_dir, w2))"

subsection \<open>The two classes behind one interface, and the factory\<close>

datatype deployment = ClusterFuzzLite config filestore | OSSFuzz config

definition get_clusterfuzz_deployment :: "modules \<Rightarrow> config \<Rightarrow> world \<Rightarrow> deployment \<times> world" where
  "get_clusterfuzz_deployment env cfg w =
     (if platform cfg = INTERNAL_GENERIC_CI \<or> platform cfg = INTERNAL_GITHUB then
        (OSSFuzz cfg, logging INFO ''Using OSS-Fuzz as ClusterFuzz deployment.'' [] w)
      else
        (ClusterFuzzLite cfg (get_filestore env cfg),
         logging INFO ''Using ClusterFuzzLite as ClusterFuzz deployment.'' [] w))"

text \<open>Method calls on a deployment object, resolved by its class.\<close>

fun download_latest_build ::
  "deployment \<Rightarrow> modules \<Rightarrow> path \<Rightarrow> world \<Rightarrow> path option result" where
  "download_latest_build (ClusterFuzzLite cfg fs) env parent_dir w =
     ClusterFuzzLite_download_latest_build cfg fs parent_dir w"
| "download_latest_build (OSSFuzz cfg) env parent_dir w =
     OSSFuzz_download_latest_build cfg env parent_dir w"

fun upload_latest_build :: "deployment \<Rightarrow> path \<Rightarrow> world \<Rightarrow> bool result" where
  "upload_latest_build (ClusterFuzzLite cfg fs) build_dir w =
     ClusterFuzzLite_upload_latest_build cfg fs build_dir w"
| "upload_latest_build (OSSFuzz cfg) build_dir w =
     OSSFuzz_upload_latest_build cfg build_dir w"

fun download_corpus ::
  "deployment \<Rightarrow> modules \<Rightarrow> string \<Rightarrow> path \<Rightarrow> world \<Rightarrow> path result" where
  "download_corpus (ClusterFuzzLite cfg fs) env target_name parent_dir w =
     ClusterFuzzLite_download_corpus cfg fs target_name parent_dir w"
| "download_corpus (OSSFuzz cfg) env target_name parent_dir w =
     OSSFuzz_download_corpus cfg env target_name parent_dir w"

text \<open>
  \<^verbatim>\<open>upload_corpus\<close> is a method of \<^verbatim>\<open>ClusterFuzzLite\<close> alone: neither \<^verbatim>\<open>OSSFuzz\<close> nor
  the base class defines it, so the attribute lookup on an \<^verbatim>\<open>OSSFuzz\<close> object raises
  \<^verbatim>\<open>AttributeError\<close>.
\<close>

fun upload_corpus :: "deployment \<Rightarrow> string \<Rightarrow> path \<Rightarrow> world \<Rightarrow> unit result" where
  "upload_corpus (ClusterFuzzLite cfg fs) target_name corpus_dir w =
     ClusterFuzzLite_upload_corpus cfg fs target_name corpus_dir w"
| "upload_corpus (OSSFuzz cfg) target_name corpus_dir w =
     (Inl (Raised AttributeError
        (CHR 0x27 # ''OSSFuzz' object has no attribute 'upload_corpus'' @ [CHR 0x27])), w)"

subsection \<open>Observations and test doubles\<close>

text \<open>
  The remote fetches of a build in a trace: the calls to the filestore's
  \<^verbatim>\<open>download_latest_build\<close> and to \<^verbatim>\<open>http_utils.download_and_unpack_zip\<close>.
\<close>

fun is_remote_fetch :: "event \<Rightarrow> bool" where
  "is_remote_fetch (Filestore_download_latest_build name dir) = True"
| "is_remote_fetch (Download_and_unpack_zip url dir) = True"
| "is_remote_fetch e = False"

definition remote_fetches :: "event list \<Rightarrow> nat" where
  "remote_fetches tr = length (filter is_remote_fetch tr)"

text \<open>
  Stubs for the collaborators, as a test would write them: a filestore whose build
  operations answer \<open>ok\<close> and whose corpus operations raise \<open>err\<close> (or return when it is
  \<open>None\<close>), and modules whose fetch-and-unpack answers \<open>ok\<close> and whose \<^verbatim>\<open>urlopen\<close>
  gives \<open>response\<close>.
\<close>

definition stub_filestore :: "bool \<Rightarrow> exn option \<Rightarrow> filestore" where
  "stub_filestore ok err =
     \<lparr>fs_download_latest_build = (\<lambda>w name dir. ok),
      fs_upload_latest_build = (\<lambda>w name dir. ok),
      fs_download_corpus = (\<lambda>w name dir. err),
      fs_upload_corpus = (\<lambda>w name dir. err)\<rparr>"

definition stub_modules :: "bool \<Rightarrow> (exn + bytes) \<Rightarrow> modules" where
  "stub_modules ok response =
     \<lparr>GCS_BASE_URL = ''https://storage.googleapis.com/'',
      get_filestore = (\<lambda>cfg. stub_filestore ok None),
      download_and_unpack_zip = (\<lambda>w url dir. ok),
      urlopen = (\<lambda>w url. response)\<rparr>"

definition stub_config :: "string \<Rightarrow> platform \<Rightarrow> config" where
  "stub_config project p = \<lparr>project_name = project, sanitizer = ''address'', platform = p\<rparr>"

text \<open>
  Two worlds to start from: one with nothing on disk where every directory can be
  created, and one where every request to create a directory is answered by the
  exception \<open>e\<close>.
\<close>

definition empty_world :: world where
  "empty_world = \<lparr>dirs = {}, trace = [], makedirs_error = (\<lambda>ds tr p. None)\<rparr>"

definition refusing_world :: "exn \<Rightarrow> world" where
  "refusing_world e = \<lparr>dirs = {}, trace = [], makedirs_error = (\<lambda>ds tr p. Some e)\<rparr>"

section \<open>Properties\<close>

subsection \<open>Effects on the world\<close>

lemma endswith_rev: "endswith s p \<longleftrightarrow> prefix (rev p) (rev s)"
  by (simp add: endswith_def suffix_to_prefix)

lemma dirs_emit: "dirs (emit e w) = dirs w"
  by (simp add: emit_def)

lemma dirs_logging: "dirs (logging l f a w) = dirs w"
  by (simp add: logging_def emit_def)

lemma trace_emit: "trace (emit e w) = trace w @ [e]"
  by (simp add: emit_def)

lemma trace_logging: "trace (logging l f a w) = trace w @ [Logging l f a]"
  by (simp add: logging_def emit_def)

lemmas world_simps = dirs_emit dirs_logging trace_emit trace_logging

lemma os_makedirs_created:
  assumes "os_makedirs p w = (Inr u, w1)"
  shows "p \<in> dirs w1" and "dirs w \<subseteq> dirs w1" and "trace w1 = trace w @ [Makedirs p]"
  using assms by (auto simp add: os_makedirs_def emit_def split: option.splits)

lemma os_makedirs_refused:
  assumes "os_makedirs p w = (Inl e, w1)"
  shows "dirs w1 = dirs w" and "trace w1 = trace w @ [Makedirs p]"
  using assms by (auto simp add: os_makedirs_def emit_def split: option.splits)

lemma os_makedirs_cases:
  obtains (refused) e w1 where "os_makedirs p w = (Inl e, w1)"
  | (created) w1 where "os_makedirs p w = (Inr (), w1)"
  by (cases "os_makedirs p w"; cases "fst (os_makedirs p w)") auto

lemma get_latest_build_name_frame:
  assumes "OSSFuzz_get_latest_build_name cfg env w = (r, w2)"
  shows "dirs w2 = dirs w" and "prefix (trace w) (trace w2)"
    and "filter is_remote_fetch (trace w2) = filter is_remote_fetch (trace w)"
  using assms
  by (auto simp add: OSSFuzz_get_latest_build_name_def Let_def world_simps
        split: sum.splits option.splits if_splits)

text \<open>
  What \<^verbatim>\<open>download_latest_build\<close> does when the build directory exists, when it cannot
  be created, and when it is created.
\<close>

lemma download_latest_build_hit:
  "get_build_dir p \<in> dirs w \<Longrightarrow>
   download_latest_build d env p w = (Inr (Some (get_build_dir p)), w)"
  by (cases d)
     (simp_all add: ClusterFuzzLite_download_latest_build_def
        OSSFuzz_download_latest_build_def os_path_exists_def)

lemma download_latest_build_refused:
  "get_build_dir p \<notin> dirs w \<Longrightarrow> os_makedirs (get_build_dir p) w = (Inl e, w1) \<Longrightarrow>
   download_latest_build d env p w = (Inl e, w1)"
  by (cases d)
     (simp_all add: ClusterFuzzLite_download_latest_build_def
        OSSFuzz_download_latest_build_def os_path_exists_def)

lemma ClusterFuzzLite_download_latest_build_created:
  assumes "get_build_dir p \<notin> dirs w" and "os_makedirs (get_build_dir p) w = (Inr u, w1)"
  shows "ClusterFuzzLite_download_latest_build cfg fs p w
           = (if fs_download_latest_build fs w1 (''cifuzz-build-'' @ sanitizer cfg) (get_build_dir p)
              then Inr (Some (get_build_dir p)) else Inr None,
              emit (Filestore_download_latest_build (''cifuzz-build-'' @ sanitizer cfg)
                      (get_build_dir p)) w1)"
  using assms
  by (simp add: ClusterFuzzLite_download_latest_build_def ClusterFuzzLite_get_build_name_def
        BASE_BUILD_NAME_def os_path_exists_def Let_def)

lemma OSSFuzz_download_latest_build_created:
  assumes "get_build_dir p \<notin> dirs w" and "os_makedirs (get_build_dir p) w = (Inr u, w1)"
    and "OSSFuzz_get_latest_build_name cfg env w1 = (r, w2)"
  shows "OSSFuzz_download_latest_build cfg env p w
           = (case r of
                Inl e \<Rightarrow> (Inl e, w2)
              | Inr None \<Rightarrow> (Inr None, w2)
              | Inr (Some b) \<Rightarrow>
                  if b = [] then (Inr None, w2)
                  else
                    (if download_and_unpack_zip env w2
                          (url_join (GCS_BASE_URL env) [''clusterfuzz-builds'', project_name cfg, b])
                          (get_build_dir p)
                     then Inr (Some (get_build_dir p)) else Inr None,
                     emit (Download_and_unpack_zip
                             (url_join (GCS_BASE_URL env)
                                [''clusterfuzz-builds'', project_name cfg, b])
                             (get_build_dir p)) w2))"
  using assms
  by (simp add: OSSFuzz_download_latest_build_def CLUSTERFUZZ_BUILDS_def os_path_exists_def
        Let_def split: sum.splits option.splits)

text \<open>
  After a call that found the directory missing and created it: the directory exists,
  the creation was the first effect, at most one remote fetch was made, and a path that
  is returned is the build directory.
\<close>

lemma download_latest_build_created:
  assumes absent: "get_build_dir p \<notin> dirs w"
    and created: "os_makedirs (get_build_dir p) w = (Inr u, w1)"
    and call: "download_latest_build d env p w = (r, w')"
  shows "get_build_dir p \<in> dirs w' \<and>
         prefix (trace w @ [Makedirs (get_build_dir p)]) (trace w') \<and>
         length (filter is_remote_fetch (trace w'))
           \<le> Suc (length (filter is_remote_fetch (trace w))) \<and>
         (\<forall>q. r = Inr (Some q) \<longrightarrow> q = get_build_dir p)"
proof (cases d)
  case (ClusterFuzzLite cfg fs)
  note mk = os_makedirs_created [OF created]
  from call ClusterFuzzLite ClusterFuzzLite_download_latest_build_created [OF absent created, of cfg fs]
  have r: "r = (if fs_download_latest_build fs w1 (''cifuzz-build-'' @ sanitizer cfg)
                     (get_build_dir p)
                then Inr (Some (get_build_dir p)) else Inr None)"
    and w': "w' = emit (Filestore_download_latest_build (''cifuzz-build-'' @ sanitizer cfg)
                     (get_build_dir p)) w1"
    by simp_all
  have "get_build_dir p \<in> dirs w'"
    using mk w' by (simp add: world_simps)
  moreover have "prefix (trace w @ [Makedirs (get_build_dir p)]) (trace w')"
    using mk w' by (simp add: world_simps)
  moreover have "length (filter is_remote_fetch (trace w'))
                   \<le> Suc (length (filter is_remote_fetch (trace w)))"
    using mk w' by (simp add: world_simps)
  moreover have "\<forall>q. r = Inr (Some q) \<longrightarrow> q = get_build_dir p"
    using r by (simp split: if_splits)
  ultimately show ?thesis by blast
next
  case (OSSFuzz cfg)
  note mk = os_makedirs_created [OF created]
  obtain r2 w2 where g: "OSSFuzz_get_latest_build_name cfg env w1 = (r2, w2)"
    by (cases "OSSFuzz_get_latest_build_name cfg env w1")
  note fr = get_latest_build_name_frame [OF g]
  from call OSSFuzz OSSFuzz_download_latest_build_created [OF absent created g]
  have res:
    "(r, w') = (case r2 of
              Inl e \<Rightarrow> (Inl e, w2)
            | Inr None \<Rightarrow> (Inr None, w2)
            | Inr (Some b) \<Rightarrow>
                if b = [] then (Inr None, w2)
                else
                  (if download_and_unpack_zip env w2
                        (url_join (GCS_BASE_URL env) [''clusterfuzz-builds'', project_name cfg, b])
                        (get_build_dir p)
                   then Inr (Some (get_build_dir p)) else Inr None,
                   emit (Download_and_unpack_zip
                           (url_join (GCS_BASE_URL env)
                              [''clusterfuzz-builds'', project_name cfg, b])
                           (get_build_dir p)) w2))"
    by simp
  have "get_build_dir p \<in> dirs w'"
    using res mk fr by (auto simp add: world_simps split: sum.splits option.splits if_splits)
  moreover have "prefix (trace w @ [Makedirs (get_build_dir p)]) (trace w')"
    using res mk fr by (auto simp add: world_simps split: sum.splits option.splits if_splits)
  moreover have "length (filter is_remote_fetch (trace w'))
                   \<le> Suc (length (filter is_remote_fetch (trace w)))"
    using res mk fr by (auto simp add: world_simps split: sum.splits option.splits if_splits)
  moreover have "\<forall>q. r = Inr (Some q) \<longrightarrow> q = get_build_dir p"
    using res by (auto split: sum.splits option.splits if_splits)
  ultimately show ?thesis by blast
qed

lemma build_dir_exists:
  assumes "get_build_dir p \<in> dirs w \<or> fst (os_makedirs (get_build_dir p) w) = Inr ()"
  shows "get_build_dir p \<in> dirs (snd (download_latest_build d env p w))"
proof (cases "get_build_dir p \<in> dirs w")
  case True
  then show ?thesis by (simp add: download_latest_build_hit)
next
  case False
  with assms obtain w1 where "os_makedirs (get_build_dir p) w = (Inr (), w1)"
    by (cases "os_makedirs (get_build_dir p) w") auto
  from download_latest_build_created [OF False this, of d env]
  show ?thesis by (cases "download_latest_build d env p w") simp
qed

lemma returned_build_dir_exists:
  assumes "fst (download_latest_build d env p w) = Inr x"
  shows "get_build_dir p \<in> dirs (snd (download_latest_build d env p w))"
proof (cases "get_build_dir p \<in> dirs w")
  case True
  then show ?thesis by (simp add: download_latest_build_hit)
next
  case False
  obtain m w1 where mk: "os_makedirs (get_build_dir p) w = (m, w1)"
    by (cases "os_makedirs (get_build_dir p) w")
  show ?thesis
  proof (cases m)
    case (Inl e)
    with download_latest_build_refused [OF False, of e w1 d env] mk assms
    show ?thesis by simp
  next
    case (Inr u)
    with mk have "fst (os_makedirs (get_build_dir p) w) = Inr ()" by simp
    then show ?thesis by (simp add: build_dir_exists)
  qed
qed

lemmas stub_defs = stub_filestore_def stub_modules_def stub_config_def empty_world_def

lemmas path_defs = get_build_dir_def get_corpus_dir_def os_path_join_def join_component_def
  startswith_def endswith_rev BUILD_DIR_NAME_def CORPUS_DIR_NAME_def url_join_def

lemmas eval_defs = stub_defs path_defs os_path_exists_def os_makedirs_def emit_def logging_def
  Let_def remote_fetches_def ancestors_def

subsection \<open>The factory\<close>

text \<open>
  Claim C1. For every configuration whose platform is \<^verbatim>\<open>INTERNAL_GENERIC_CI\<close> or
  \<^verbatim>\<open>INTERNAL_GITHUB\<close>, \<^verbatim>\<open>get_clusterfuzz_deployment\<close> returns an \<^verbatim>\<open>OSSFuzz\<close> deployment
  of that configuration; for every configuration with any other platform value it
  returns a \<^verbatim>\<open>ClusterFuzzLite\<close> deployment, which holds the filestore that
  \<^verbatim>\<open>get_filestore\<close> chooses for the configuration.
\<close>

theorem get_clusterfuzz_deployment_by_platform:
  "(platform cfg = INTERNAL_GENERIC_CI \<or> platform cfg = INTERNAL_GITHUB \<longrightarrow>
      fst (get_clusterfuzz_deployment env cfg w) = OSSFuzz cfg) \<and>
   (platform cfg \<noteq> INTERNAL_GENERIC_CI \<and> platform cfg \<noteq> INTERNAL_GITHUB \<longrightarrow>
      fst (get_clusterfuzz_deployment env cfg w) = ClusterFuzzLite cfg (get_filestore env cfg))"
  by (simp add: get_clusterfuzz_deployment_def)

theorem get_clusterfuzz_deployment_by_platform_witness:
  "fst (get_clusterfuzz_deployment (stub_modules True (Inr [])) (stub_config ''curl'' INTERNAL_GENERIC_CI)
          empty_world) = OSSFuzz (stub_config ''curl'' INTERNAL_GENERIC_CI) \<and>
   fst (get_clusterfuzz_deployment (stub_modules True (Inr [])) (stub_config ''curl'' INTERNAL_GITHUB)
          empty_world) = OSSFuzz (stub_config ''curl'' INTERNAL_GITHUB) \<and>
   fst (get_clusterfuzz_deployment (stub_modules True (Inr []))
          (stub_config ''curl'' (Other_platform ''EXTERNAL_GITHUB'')) empty_world)
     = ClusterFuzzLite (stub_config ''curl'' (Other_platform ''EXTERNAL_GITHUB''))
         (stub_filestore True None)"
  using get_clusterfuzz_deployment_by_platform
          [of "stub_config ''curl'' INTERNAL_GENERIC_CI" "stub_modules True (Inr [])" empty_world]
        get_clusterfuzz_deployment_by_platform
          [of "stub_config ''curl'' INTERNAL_GITHUB" "stub_modules True (Inr [])" empty_world]
        get_clusterfuzz_deployment_by_platform
          [of "stub_config ''curl'' (Other_platform ''EXTERNAL_GITHUB'')" "stub_modules True (Inr [])"
              empty_world]
  by (simp add: stub_config_def stub_modules_def)

subsection \<open>Downloading the latest build twice\<close>

lemma fetches_once:
  "remote_fetches (trace (snd (download_latest_build d env p w))) \<le> Suc (remote_fetches (trace w))"
proof (cases "get_build_dir p \<in> dirs w")
  case True
  then show ?thesis by (simp add: download_latest_build_hit)
next
  case False
  obtain m wm where mk: "os_makedirs (get_build_dir p) w = (m, wm)"
    by (cases "os_makedirs (get_build_dir p) w")
  show ?thesis
  proof (cases m)
    case (Inl e)
    with download_latest_build_refused [OF False, of e wm d env] mk
         os_makedirs_refused(2) [of "get_build_dir p" w e wm]
    show ?thesis by (simp add: remote_fetches_def)
  next
    case (Inr u)
    with mk have "os_makedirs (get_build_dir p) w = (Inr u, wm)" by simp
    from download_latest_build_created [OF False this, of d env]
    show ?thesis
      by (cases "download_latest_build d env p w") (simp add: remote_fetches_def)
  qed
qed

lemma download_latest_build_path:
  assumes "fst (download_latest_build d env p w) = Inr (Some q)"
  shows "q = get_build_dir p"
proof (cases "get_build_dir p \<in> dirs w")
  case True
  with assms show ?thesis by (simp add: download_latest_build_hit)
next
  case False
  obtain m wm where mk: "os_makedirs (get_build_dir p) w = (m, wm)"
    by (cases "os_makedirs (get_build_dir p) w")
  show ?thesis
  proof (cases m)
    case (Inl e)
    with download_latest_build_refused [OF False, of e wm d env] mk assms
    show ?thesis by simp
  next
    case (Inr u)
    with mk have "os_makedirs (get_build_dir p) w = (Inr u, wm)" by simp
    from download_latest_build_created [OF False this, of d env] assms
    show ?thesis
      by (cases "download_latest_build d env p w") simp
  qed
qed

text \<open>
  Claim C2 says that for every parent directory the second call finds the build
  directory and returns its path. Where the directory cannot be created (here under
  \<^verbatim>\<open>/proc\<close>, where the operating system refuses), \<^verbatim>\<open>os.makedirs\<close> raises in the first call
  and again in the second, on both backends: the second call returns no path.
\<close>

theorem download_latest_build_twice_counterexample:
  "fst (download_latest_build
          (ClusterFuzzLite (stub_config ''curl'' (Other_platform ''EXTERNAL_GITHUB''))
             (stub_filestore True None))
          (stub_modules True (Inr ''curl-address-20230101.zip'')) ''/proc''
          (snd (download_latest_build
                  (ClusterFuzzLite (stub_config ''curl'' (Other_platform ''EXTERNAL_GITHUB''))
                     (stub_filestore True None))
                  (stub_modules True (Inr ''curl-address-20230101.zip'')) ''/proc''
                  (refusing_world
                     (Raised FileNotFoundError
                        (''[Errno 2] No such file or directory: '/proc/cifuzz-latest-build''
                           @ [CHR 0x27]))))))
     = Inl (Raised FileNotFoundError
              (''[Errno 2] No such file or directory: '/proc/cifuzz-latest-build'' @ [CHR 0x27])) \<and>
   fst (download_latest_build (OSSFuzz (stub_config ''curl'' INTERNAL_GITHUB))
          (stub_modules True (Inr ''curl-address-20230101.zip'')) ''/proc''
          (snd (download_latest_build (OSSFuzz (stub_config ''curl'' INTERNAL_GITHUB))
                  (stub_modules True (Inr ''curl-address-20230101.zip'')) ''/proc''
                  (refusing_world
                     (Raised FileNotFoundError
                        (''[Errno 2] No such file or directory: '/proc/cifuzz-latest-build''
                           @ [CHR 0x27]))))))
     = Inl (Raised FileNotFoundError
              (''[Errno 2] No such file or directory: '/proc/cifuzz-latest-build'' @ [CHR 0x27]))"
  by (simp add: ClusterFuzzLite_download_latest_build_def OSSFuzz_download_latest_build_def
        refusing_world_def os_path_exists_def os_makedirs_def emit_def path_defs)

text \<open>
  Claim C2, amended. On both backends and for every parent directory, two calls of
  \<^verbatim>\<open>download_latest_build\<close> with the same parent directory, the second made in the world
  the first one left, perform the remote fetch at most once, and a path returned by the
  first call is the build directory path. If the build directory existed before the
  first call or \<^verbatim>\<open>os.makedirs\<close> created it in the first call, and so whenever the first
  call returned (a path or \<^verbatim>\<open>None\<close>), the second call returns the build directory path
  and leaves the world as it was: no collaborator is invoked and nothing is created or
  logged.
\<close>

theorem download_latest_build_twice:
  assumes first: "download_latest_build d env parent_dir w = (r1, w1)"
    and second: "download_latest_build d env parent_dir w1 = (r2, w2)"
  shows "remote_fetches (trace w2) \<le> remote_fetches (trace w) + 1 \<and>
         (\<forall>q. r1 = Inr (Some q) \<longrightarrow> q = get_build_dir parent_dir) \<and>
         (get_build_dir parent_dir \<in> dirs w \<or>
          fst (os_makedirs (get_build_dir parent_dir) w) = Inr () \<longrightarrow>
            r2 = Inr (Some (get_build_dir parent_dir)) \<and> w2 = w1) \<and>
         (\<forall>x. r1 = Inr x \<longrightarrow> r2 = Inr (Some (get_build_dir parent_dir)) \<and> w2 = w1)"
proof -
  let ?bd = "get_build_dir parent_dir"
  have hit: "r2 = Inr (Some ?bd) \<and> w2 = w1" if "?bd \<in> dirs w1"
    using download_latest_build_hit [OF that, of d env] second by simp
  have kept: "?bd \<in> dirs w \<or> fst (os_makedirs ?bd w) = Inr () \<longrightarrow>
                r2 = Inr (Some ?bd) \<and> w2 = w1"
    using build_dir_exists [of parent_dir w d env] first hit by auto
  have returned: "\<forall>x. r1 = Inr x \<longrightarrow> r2 = Inr (Some ?bd) \<and> w2 = w1"
    using returned_build_dir_exists [of d env parent_dir w] first hit by auto
  have path: "\<forall>q. r1 = Inr (Some q) \<longrightarrow> q = ?bd"
    using download_latest_build_path [of d env parent_dir w] first by simp
  have once: "remote_fetches (trace w2) \<le> remote_fetches (trace w) + 1"
  proof (cases "?bd \<in> dirs w \<or> fst (os_makedirs ?bd w) = Inr ()")
    case True
    with kept have "w2 = w1" by blast
    then show ?thesis
      using fetches_once [of d env parent_dir w] first by simp
  next
    case False
    then have absent: "?bd \<notin> dirs w" by blast
    from False obtain e wm where mk: "os_makedirs ?bd w = (Inl e, wm)"
      by (cases "os_makedirs ?bd w"; cases "fst (os_makedirs ?bd w)") auto
    from download_latest_build_refused [OF absent mk, of d env] first
    have "w1 = wm" by simp
    with os_makedirs_refused(2) [OF mk]
    have "remote_fetches (trace w1) = remote_fetches (trace w)"
      by (simp add: remote_fetches_def)
    then show ?thesis
      using fetches_once [of d env parent_dir w1] second by simp
  qed
  from once path kept returned show ?thesis by blast
qed

theorem download_latest_build_twice_witness:
  "fst (download_latest_build
          (ClusterFuzzLite (stub_config ''curl'' (Other_platform ''EXTERNAL_GITHUB''))
             (stub_filestore True None))
          (stub_modules True (Inr [])) ''/tmp/run1'' empty_world)
     = Inr (Some ''/tmp/run1/cifuzz-latest-build'') \<and>
   trace (snd (download_latest_build
          (ClusterFuzzLite (stub_config ''curl'' (Other_platform ''EXTERNAL_GITHUB''))
             (stub_filestore True None))
          (stub_modules True (Inr [])) ''/tmp/run1'' empty_world))
     = [Makedirs ''/tmp/run1/cifuzz-latest-build'',
        Filestore_download_latest_build ''cifuzz-build-address''
          ''/tmp/run1/cifuzz-latest-build''] \<and>
   download_latest_build
     (ClusterFuzzLite (stub_config ''curl'' (Other_platform ''EXTERNAL_GITHUB''))
        (stub_filestore True None))
     (stub_modules True (Inr [])) ''/tmp/run1''
     (snd (download_latest_build
          (ClusterFuzzLite (stub_config ''curl'' (Other_platform ''EXTERNAL_GITHUB''))
             (stub_filestore True None))
          (stub_modules True (Inr [])) ''/tmp/run1'' empty_world))
   = (Inr (Some ''/tmp/run1/cifuzz-latest-build''),
      snd (download_latest_build
          (ClusterFuzzLite (stub_config ''curl'' (Other_platform ''EXTERNAL_GITHUB''))
             (stub_filestore True None))
          (stub_modules True (Inr [])) ''/tmp/run1'' empty_world)) \<and>
   remote_fetches (trace (snd (download_latest_build
          (ClusterFuzzLite (stub_config ''curl'' (Other_platform ''EXTERNAL_GITHUB''))
             (stub_filestore True None))
          (stub_modules True (Inr [])) ''/tmp/run1'' empty_world))) = 1"
proof -
  let ?d = "ClusterFuzzLite (stub_config ''curl'' (Other_platform ''EXTERNAL_GITHUB''))
              (stub_filestore True None)"
  let ?env = "stub_modules True (Inr [])"
  let ?first = "download_latest_build ?d ?env ''/tmp/run1'' empty_world"
  let ?second = "download_latest_build ?d ?env ''/tmp/run1'' (snd ?first)"
  have bd: "get_build_dir ''/tmp/run1'' = ''/tmp/run1/cifuzz-latest-build''"
    by (simp add: path_defs)
  have created: "fst (os_makedirs (get_build_dir ''/tmp/run1'') empty_world) = Inr ()"
    by (simp add: os_makedirs_def empty_world_def)
  have result: "fst ?first = Inr (Some ''/tmp/run1/cifuzz-latest-build'')"
    by (simp add: ClusterFuzzLite_download_latest_build_def eval_defs)
  have effects: "trace (snd ?first)
                   = [Makedirs ''/tmp/run1/cifuzz-latest-build'',
                      Filestore_download_latest_build ''cifuzz-build-address''
                        ''/tmp/run1/cifuzz-latest-build'']"
    by (simp add: ClusterFuzzLite_download_latest_build_def ClusterFuzzLite_get_build_name_def
          BASE_BUILD_NAME_def eval_defs)
  have first: "?first = (fst ?first, snd ?first)" by simp
  have second: "?second = (fst ?second, snd ?second)" by simp
  from download_latest_build_twice [OF first second] created
  have "fst ?second = Inr (Some ''/tmp/run1/cifuzz-latest-build'') \<and> snd ?second = snd ?first"
    by (simp add: bd)
  then have "?second = (Inr (Some ''/tmp/run1/cifuzz-latest-build''), snd ?first)"
    by (metis prod.collapse)
  with result effects show ?thesis
    by (simp add: remote_fetches_def)
qed

subsection \<open>Uploading a build to OSS-Fuzz\<close>

text \<open>
  Claim C3. \<^verbatim>\<open>OSSFuzz.upload_latest_build\<close> raises an exception for every build
  directory, in every world: the call never returns a value, whether it is made on the
  class or through a deployment object. It does nothing else.
\<close>

theorem OSSFuzz_upload_latest_build_raises:
  "OSSFuzz_upload_latest_build cfg build_dir w
     = (Inl (Raised Exception ''upload_latest_build not should not be called for OSSFuzz.''), w) \<and>
   upload_latest_build (OSSFuzz cfg) build_dir w
     = (Inl (Raised Exception ''upload_latest_build not should not be called for OSSFuzz.''), w)"
  by (simp add: OSSFuzz_upload_latest_build_def)

subsection \<open>Downloading a corpus\<close>

text \<open>
  Claim C4 says that \<^verbatim>\<open>OSSFuzz.download_corpus\<close> returns the corpus directory path for
  every target name and parent directory. Where the corpus directory cannot be created
  (here under \<^verbatim>\<open>/proc\<close>), \<^verbatim>\<open>os.makedirs\<close> raises before any fetch and the exception
  reaches the caller.
\<close>

theorem OSSFuzz_download_corpus_counterexample:
  "fst (OSSFuzz_download_corpus (stub_config ''curl'' INTERNAL_GITHUB)
          (stub_modules True (Inr [])) ''fuzz_target'' ''/proc''
          (refusing_world
             (Raised FileNotFoundError
                (''[Errno 2] No such file or directory: '/proc/cifuzz-corpus'' @ [CHR 0x27]))))
     = Inl (Raised FileNotFoundError
              (''[Errno 2] No such file or directory: '/proc/cifuzz-corpus'' @ [CHR 0x27]))"
  by (simp add: OSSFuzz_download_corpus_def refusing_world_def os_makedirs_def emit_def)

text \<open>
  Claim C4, amended. For every target name and parent directory,
  \<^verbatim>\<open>OSSFuzz.download_corpus\<close> discards what \<^verbatim>\<open>download_and_unpack_zip\<close> answers: replacing
  the fetch-and-unpack collaborator by any other changes neither the result nor the
  effects. When \<^verbatim>\<open>os.makedirs\<close> creates the corpus directory, the call returns the
  corpus directory path, whether the fetch reports success or failure, and the corpus
  directory exists afterwards. The only exception the call raises is the one
  \<^verbatim>\<open>os.makedirs\<close> raises when the corpus directory cannot be created; none arises
  from a reported fetch failure.
\<close>

theorem OSSFuzz_download_corpus_ignores_fetch_result:
  "OSSFuzz_download_corpus cfg (env\<lparr>download_and_unpack_zip := unpack\<rparr>) target_name parent_dir w
     = OSSFuzz_download_corpus cfg env target_name parent_dir w \<and>
   (fst (os_makedirs (get_corpus_dir target_name parent_dir) w) = Inr () \<longrightarrow>
      fst (OSSFuzz_download_corpus cfg env target_name parent_dir w)
        = Inr (get_corpus_dir target_name parent_dir) \<and>
      get_corpus_dir target_name parent_dir
        \<in> dirs (snd (OSSFuzz_download_corpus cfg env target_name parent_dir w))) \<and>
   (\<forall>e. fst (OSSFuzz_download_corpus cfg env target_name parent_dir w) = Inl e \<longrightarrow>
      fst (os_makedirs (get_corpus_dir target_name parent_dir) w) = Inl e)"
proof (cases "get_corpus_dir target_name parent_dir" w rule: os_makedirs_cases)
  case (refused e w1)
  then show ?thesis
    by (simp add: OSSFuzz_download_corpus_def Let_def)
next
  case (created w1)
  with os_makedirs_created(1) [OF created] show ?thesis
    by (simp add: OSSFuzz_download_corpus_def Let_def world_simps)
qed

theorem OSSFuzz_download_corpus_ignores_fetch_result_witness:
  "fst (OSSFuzz_download_corpus (stub_config ''curl'' INTERNAL_GITHUB)
          (stub_modules False (Inr [])) ''fuzz_target'' ''/tmp/run1'' empty_world)
     = Inr ''/tmp/run1/cifuzz-corpus/fuzz_target'' \<and>
   fst (OSSFuzz_download_corpus (stub_config ''curl'' INTERNAL_GITHUB)
          (stub_modules True (Inr [])) ''fuzz_target'' ''/tmp/run1'' empty_world)
     = Inr ''/tmp/run1/cifuzz-corpus/fuzz_target'' \<and>
   ''/tmp/run1/cifuzz-corpus/fuzz_target''
     \<in> dirs (snd (OSSFuzz_download_corpus (stub_config ''curl'' INTERNAL_GITHUB)
          (stub_modules False (Inr [])) ''fuzz_target'' ''/tmp/run1'' empty_world)) \<and>
   fst (OSSFuzz_download_corpus (stub_config ''curl'' INTERNAL_GITHUB)
          (stub_modules True (Inr [])) ''fuzz_target'' ''/proc''
          (refusing_world (Raised FileNotFoundError ''[Errno 2] No such file or directory'')))
     = Inl (Raised FileNotFoundError ''[Errno 2] No such file or directory'') \<and>
   fst (os_makedirs (get_corpus_dir ''fuzz_target'' ''/proc'')
          (refusing_world (Raised FileNotFoundError ''[Errno 2] No such file or directory'')))
     = Inl (Raised FileNotFoundError ''[Errno 2] No such file or directory'')"
proof -
  let ?cfg = "stub_config ''curl'' INTERNAL_GITHUB"
  let ?no = "refusing_world (Raised FileNotFoundError ''[Errno 2] No such file or directory'')"
  have cd: "get_corpus_dir ''fuzz_target'' ''/tmp/run1'' = ''/tmp/run1/cifuzz-corpus/fuzz_target''"
    by (simp add: path_defs)
  have created: "fst (os_makedirs (get_corpus_dir ''fuzz_target'' ''/tmp/run1'') empty_world) = Inr ()"
    by (simp add: os_makedirs_def empty_world_def)
  have raised: "fst (OSSFuzz_download_corpus ?cfg (stub_modules True (Inr [])) ''fuzz_target''
                       ''/proc'' ?no)
                  = Inl (Raised FileNotFoundError ''[Errno 2] No such file or directory'')"
    by (simp add: OSSFuzz_download_corpus_def refusing_world_def os_makedirs_def emit_def)
  note failing = OSSFuzz_download_corpus_ignores_fetch_result
      [where cfg = ?cfg and env = "stub_modules False (Inr [])" and unpack = "\<lambda>w url dir. True"
         and target_name = "''fuzz_target''" and parent_dir = "''/tmp/run1''" and w = empty_world,
       THEN conjunct2, THEN conjunct1, rule_format, OF created]
  note working = OSSFuzz_download_corpus_ignores_fetch_result
      [where cfg = ?cfg and env = "stub_modules True (Inr [])" and unpack = "\<lambda>w url dir. True"
         and target_name = "''fuzz_target''" and parent_dir = "''/tmp/run1''" and w = empty_world,
       THEN conjunct2, THEN conjunct1, rule_format, OF created]
  note refused = OSSFuzz_download_corpus_ignores_fetch_result
      [where cfg = ?cfg and env = "stub_modules True (Inr [])" and unpack = "\<lambda>w url dir. True"
         and target_name = "''fuzz_target''" and parent_dir = "''/proc''" and w = ?no,
       THEN conjunct2, THEN conjunct2, rule_format, OF raised]
  from failing working refused raised show ?thesis
    by (simp only: cd simp_thms)
qed

text \<open>
  Claim C5. For every target name and parent directory: if the filestore's
  \<^verbatim>\<open>download_corpus\<close>, called for \<^verbatim>\<open>corpus-<target>\<close> and the corpus directory in the
  world after the debug record and the directory creation, raises \<open>err\<close>, then
  \<^verbatim>\<open>ClusterFuzzLite.download_corpus\<close> raises that same \<open>err\<close> and the last thing it did
  was to log the error with the target name and \<^verbatim>\<open>str(err)\<close>; if the filestore call
  returns, it returns the corpus directory path.
\<close>

theorem ClusterFuzzLite_download_corpus_reraises:
  assumes "corpus_dir = get_corpus_dir target_name parent_dir"
    and "os_makedirs corpus_dir
           (logging DEBUG ''ClusterFuzzLite: downloading corpus for %s to %s.''
              [Str target_name, Str parent_dir] w) = (Inr (), w_call)"
    and "outcome = fs_download_corpus fs w_call (''corpus-'' @ target_name) corpus_dir"
  shows "(outcome = Some err \<longrightarrow>
            fst (ClusterFuzzLite_download_corpus cfg fs target_name parent_dir w) = Inl err \<and>
            last (trace (snd (ClusterFuzzLite_download_corpus cfg fs target_name parent_dir w)))
              = Logging ERROR ''Failed to download corpus for target: %s. Error: %s.''
                  [Str target_name, Str (str err)]) \<and>
         (outcome = None \<longrightarrow>
            fst (ClusterFuzzLite_download_corpus cfg fs target_name parent_dir w)
              = Inr corpus_dir)"
  using assms
  by (simp add: ClusterFuzzLite_download_corpus_def ClusterFuzzLite_get_corpus_name_def
        Let_def world_simps)

theorem ClusterFuzzLite_download_corpus_reraises_witness:
  "fst (ClusterFuzzLite_download_corpus (stub_config ''curl'' (Other_platform ''EXTERNAL_GITHUB''))
          (stub_filestore True (Some (Raised (OtherError ''FilestoreError'') ''no artifact'')))
          ''fuzz_target'' ''/tmp/run1'' empty_world)
     = Inl (Raised (OtherError ''FilestoreError'') ''no artifact'') \<and>
   last (trace (snd (ClusterFuzzLite_download_corpus
          (stub_config ''curl'' (Other_platform ''EXTERNAL_GITHUB''))
          (stub_filestore True (Some (Raised (OtherError ''FilestoreError'') ''no artifact'')))
          ''fuzz_target'' ''/tmp/run1'' empty_world)))
     = Logging ERROR ''Failed to download corpus for target: %s. Error: %s.''
         [Str ''fuzz_target'', Str ''no artifact''] \<and>
   fst (ClusterFuzzLite_download_corpus (stub_config ''curl'' (Other_platform ''EXTERNAL_GITHUB''))
          (stub_filestore True None) ''fuzz_target'' ''/tmp/run1'' empty_world)
     = Inr ''/tmp/run1/cifuzz-corpus/fuzz_target''"
proof -
  let ?start = "logging DEBUG ''ClusterFuzzLite: downloading corpus for %s to %s.''
                  [Str ''fuzz_target'', Str ''/tmp/run1''] empty_world"
  let ?cd = "get_corpus_dir ''fuzz_target'' ''/tmp/run1''"
  have created: "os_makedirs ?cd ?start = (Inr (), snd (os_makedirs ?cd ?start))"
    by (simp add: os_makedirs_def empty_world_def logging_def emit_def)
  note raising = ClusterFuzzLite_download_corpus_reraises
      [OF refl created refl,
       where fs = "stub_filestore True (Some (Raised (OtherError ''FilestoreError'') ''no artifact''))"
         and err = "Raised (OtherError ''FilestoreError'') ''no artifact''"
         and cfg = "stub_config ''curl'' (Other_platform ''EXTERNAL_GITHUB'')"]
  note returning = ClusterFuzzLite_download_corpus_reraises
      [OF refl created refl,
       where fs = "stub_filestore True None"
         and cfg = "stub_config ''curl'' (Other_platform ''EXTERNAL_GITHUB'')"]
  from raising returning show ?thesis
    by (simp add: stub_filestore_def path_defs)
qed

subsection \<open>Uploading a corpus\<close>

text \<open>
  Claim C6 says that \<^verbatim>\<open>upload_corpus\<close> never propagates an exception on both backends.
  On the OSS-Fuzz backend it does: class \<^verbatim>\<open>OSSFuzz\<close> has no \<^verbatim>\<open>upload_corpus\<close> method, so
  the call on an \<^verbatim>\<open>OSSFuzz\<close> deployment raises \<^verbatim>\<open>AttributeError\<close>.
\<close>

theorem OSSFuzz_upload_corpus_counterexample:
  "fst (upload_corpus (OSSFuzz (stub_config ''curl'' INTERNAL_GITHUB)) ''fuzz_target''
          ''/tmp/run1/cifuzz-corpus/fuzz_target'' empty_world)
     = Inl (Raised AttributeError
              (CHR 0x27 # ''OSSFuzz' object has no attribute 'upload_corpus'' @ [CHR 0x27]))"
  by simp

text \<open>
  Claim C6, amended. On the ClusterFuzzLite backend \<^verbatim>\<open>upload_corpus\<close> never propagates
  an exception: for every target name and corpus directory the call completes
  normally, and when the filestore's \<^verbatim>\<open>upload_corpus\<close> raises \<open>error\<close> the last thing
  the call did was to log it with the target name.
\<close>

theorem ClusterFuzzLite_upload_corpus_swallows:
  assumes "outcome = fs_upload_corpus fs (logging INFO ''Uploading corpus for %s'' [Str target_name] w)
                       (''corpus-'' @ target_name) corpus_dir"
  shows "fst (upload_corpus (ClusterFuzzLite cfg fs) target_name corpus_dir w) = Inr () \<and>
         (outcome = Some error \<longrightarrow>
            last (trace (snd (upload_corpus (ClusterFuzzLite cfg fs) target_name corpus_dir w)))
              = Logging ERROR ''Failed to upload corpus for target: %s. Error: %s.''
                  [Str target_name, Err error])"
  using assms
  by (simp add: ClusterFuzzLite_upload_corpus_def ClusterFuzzLite_get_corpus_name_def
        Let_def world_simps split: option.splits)

theorem ClusterFuzzLite_upload_corpus_swallows_witness:
  "fst (upload_corpus
          (ClusterFuzzLite (stub_config ''curl'' (Other_platform ''EXTERNAL_GITHUB''))
             (stub_filestore True (Some (Raised (OtherError ''FilestoreError'') ''quota''))))
          ''fuzz_target'' ''/tmp/out'' empty_world) = Inr () \<and>
   last (trace (snd (upload_corpus
          (ClusterFuzzLite (stub_config ''curl'' (Other_platform ''EXTERNAL_GITHUB''))
             (stub_filestore True (Some (Raised (OtherError ''FilestoreError'') ''quota''))))
          ''fuzz_target'' ''/tmp/out'' empty_world)))
     = Logging ERROR ''Failed to upload corpus for target: %s. Error: %s.''
         [Str ''fuzz_target'', Err (Raised (OtherError ''FilestoreError'') ''quota'')]"
  using ClusterFuzzLite_upload_corpus_swallows
          [OF refl,
           where fs = "stub_filestore True (Some (Raised (OtherError ''FilestoreError'') ''quota''))"
             and target_name = "''fuzz_target''" and corpus_dir = "''/tmp/out''"
             and w = empty_world
             and error = "Raised (OtherError ''FilestoreError'') ''quota''"
             and cfg = "stub_config ''curl'' (Other_platform ''EXTERNAL_GITHUB'')"]
  by (simp add: stub_filestore_def)

subsection \<open>The project-qualified target name\<close>

lemma startswith_append: "startswith (p @ t) p"
  by (simp add: startswith_def)

text \<open>
  Claim C7. For every project name and target name: a target name that already starts
  with the project name and an underscore is its own qualified name; any other is
  qualified by putting that prefix before it; qualifying twice gives what qualifying
  once gives. This qualified name is the path segment of the corpus URL that
  \<^verbatim>\<open>OSSFuzz.download_corpus\<close> passes to \<^verbatim>\<open>download_and_unpack_zip\<close>, once the corpus
  directory is created.
\<close>

theorem project_qualified_fuzz_target_name_idempotent:
  "(startswith target_name (project_name cfg @ ''_'') \<longrightarrow>
      project_qualified_fuzz_target_name cfg target_name = target_name) \<and>
   (\<not> startswith target_name (project_name cfg @ ''_'') \<longrightarrow>
      project_qualified_fuzz_target_name cfg target_name
        = project_name cfg @ ''_'' @ target_name) \<and>
   project_qualified_fuzz_target_name cfg (project_qualified_fuzz_target_name cfg target_name)
     = project_qualified_fuzz_target_name cfg target_name \<and>
   (fst (os_makedirs (get_corpus_dir target_name parent_dir) w) = Inr () \<longrightarrow>
      last (trace (snd (OSSFuzz_download_corpus cfg env target_name parent_dir w)))
        = Download_and_unpack_zip
            (url_join (GCS_BASE_URL env)
               [project_name cfg @ ''-backup.clusterfuzz-external.appspot.com/corpus/libFuzzer/'',
                project_qualified_fuzz_target_name cfg target_name,
                CORPUS_ZIP_NAME])
            (get_corpus_dir target_name parent_dir))"
proof -
  have "startswith ((project_name cfg @ ''_'') @ target_name) (project_name cfg @ ''_'')"
    by (rule startswith_append)
  then have name: "(startswith target_name (project_name cfg @ ''_'') \<longrightarrow>
      project_qualified_fuzz_target_name cfg target_name = target_name) \<and>
   (\<not> startswith target_name (project_name cfg @ ''_'') \<longrightarrow>
      project_qualified_fuzz_target_name cfg target_name
        = project_name cfg @ ''_'' @ target_name) \<and>
   project_qualified_fuzz_target_name cfg (project_qualified_fuzz_target_name cfg target_name)
     = project_qualified_fuzz_target_name cfg target_name"
    by (simp add: project_qualified_fuzz_target_name_def Let_def)
  have "last (trace (snd (OSSFuzz_download_corpus cfg env target_name parent_dir w)))
        = Download_and_unpack_zip
            (url_join (GCS_BASE_URL env)
               [project_name cfg @ ''-backup.clusterfuzz-external.appspot.com/corpus/libFuzzer/'',
                project_qualified_fuzz_target_name cfg target_name,
                CORPUS_ZIP_NAME])
            (get_corpus_dir target_name parent_dir)"
    if "fst (os_makedirs (get_corpus_dir target_name parent_dir) w) = Inr ()"
    using that
    by (cases "get_corpus_dir target_name parent_dir" w rule: os_makedirs_cases)
       (simp_all add: OSSFuzz_download_corpus_def Let_def world_simps)
  with name show ?thesis by blast
qed

theorem project_qualified_fuzz_target_name_idempotent_witness:
  "project_qualified_fuzz_target_name (stub_config ''proj'' INTERNAL_GITHUB) ''proj_target''
     = ''proj_target'' \<and>
   project_qualified_fuzz_target_name (stub_config ''proj'' INTERNAL_GITHUB) ''target''
     = ''proj_target'' \<and>
   project_qualified_fuzz_target_name (stub_config ''proj'' INTERNAL_GITHUB)
     (project_qualified_fuzz_target_name (stub_config ''proj'' INTERNAL_GITHUB) ''target'')
     = ''proj_target'' \<and>
   last (trace (snd (OSSFuzz_download_corpus (stub_config ''proj'' INTERNAL_GITHUB)
                       (stub_modules True (Inr [])) ''target'' ''/tmp/run1'' empty_world)))
     = Download_and_unpack_zip
         (''https://storage.googleapis.com/proj-backup.clusterfuzz-external.appspot.com/''
            @ ''corpus/libFuzzer/proj_target/public.zip'')
         ''/tmp/run1/cifuzz-corpus/target''"
proof -
  have created: "fst (os_makedirs (get_corpus_dir ''target'' ''/tmp/run1'') empty_world) = Inr ()"
    by (simp add: os_makedirs_def empty_world_def)
  from project_qualified_fuzz_target_name_idempotent
          [where cfg = "stub_config ''proj'' INTERNAL_GITHUB" and target_name = "''proj_target''"]
        project_qualified_fuzz_target_name_idempotent
          [where cfg = "stub_config ''proj'' INTERNAL_GITHUB" and target_name = "''target''"
             and env = "stub_modules True (Inr [])" and parent_dir = "''/tmp/run1''"
             and w = empty_world]
        created
  show ?thesis
    by (simp add: stub_config_def stub_modules_def startswith_def endswith_rev url_join_def
          os_path_join_def join_component_def get_corpus_dir_def CORPUS_DIR_NAME_def
          CORPUS_ZIP_NAME_def)
qed

subsection \<open>The build URL\<close>

lemma endswith_append_nonempty:
  "ys \<noteq> [] \<Longrightarrow> endswith (xs @ ys) [c] \<longleftrightarrow> last ys = c"
  by (cases ys rule: rev_cases) (auto simp add: endswith_rev)

lemma url_join_curl_build:
  "url_join base [''clusterfuzz-builds'', ''curl'', ''curl-address-20230101.zip'']
     = url_join base [''clusterfuzz-builds/curl/curl-address-20230101.zip'']"
  by (simp add: url_join_def os_path_join_def join_component_def startswith_def
        endswith_append_nonempty)

text \<open>
  Claim C8. When the build directory does not exist yet, is created, and the version
  resolution made by \<^verbatim>\<open>OSSFuzz.download_latest_build\<close> succeeds with build name \<open>b\<close>, all the call
  does after the resolution is one call of \<^verbatim>\<open>download_and_unpack_zip\<close>, with the URL
  that joins the storage base URL, \<^verbatim>\<open>clusterfuzz-builds\<close>, the project name and \<open>b\<close>,
  and with the build directory (an empty \<open>b\<close> counts as no build: then nothing is
  fetched). For project \<^verbatim>\<open>curl\<close> and build name \<^verbatim>\<open>curl-address-20230101.zip\<close> that URL
  is the base URL joined with \<^verbatim>\<open>clusterfuzz-builds/curl/curl-address-20230101.zip\<close>.
\<close>

theorem OSSFuzz_download_latest_build_url:
  assumes "get_build_dir parent_dir \<notin> dirs w"
    and "os_makedirs (get_build_dir parent_dir) w = (Inr (), w1)"
    and "OSSFuzz_get_latest_build_name cfg env w1 = (Inr (Some b), w2)"
  shows "trace (snd (OSSFuzz_download_latest_build cfg env parent_dir w))
           = trace w2 @
             (if b = [] then []
              else [Download_and_unpack_zip
                      (url_join (GCS_BASE_URL env) [''clusterfuzz-builds'', project_name cfg, b])
                      (get_build_dir parent_dir)]) \<and>
         (project_name cfg = ''curl'' \<and> b = ''curl-address-20230101.zip'' \<longrightarrow>
            url_join (GCS_BASE_URL env) [''clusterfuzz-builds'', project_name cfg, b]
              = url_join (GCS_BASE_URL env)
                  [''clusterfuzz-builds/curl/curl-address-20230101.zip''])"
  using OSSFuzz_download_latest_build_created [OF assms]
  by (simp add: world_simps url_join_curl_build)

theorem OSSFuzz_download_latest_build_url_witness:
  "trace (snd (OSSFuzz_download_latest_build (stub_config ''curl'' INTERNAL_GITHUB)
                 (stub_modules True (Inr ''curl-address-20230101.zip'')) ''/tmp/run1''
                 empty_world))
     = [Makedirs ''/tmp/run1/cifuzz-latest-build'',
        Urlopen
          ''https://storage.googleapis.com/clusterfuzz-builds/curl/curl-address-latest.version'',
        Download_and_unpack_zip
          ''https://storage.googleapis.com/clusterfuzz-builds/curl/curl-address-20230101.zip''
          ''/tmp/run1/cifuzz-latest-build'']"
proof -
  let ?cfg = "stub_config ''curl'' INTERNAL_GITHUB"
  let ?env = "stub_modules True (Inr ''curl-address-20230101.zip'')"
  let ?made = "snd (os_makedirs (get_build_dir ''/tmp/run1'') empty_world)"
  let ?resolved = "snd (OSSFuzz_get_latest_build_name ?cfg ?env ?made)"
  have absent: "get_build_dir ''/tmp/run1'' \<notin> dirs empty_world"
    by (simp add: empty_world_def)
  have created: "os_makedirs (get_build_dir ''/tmp/run1'') empty_world = (Inr (), ?made)"
    by (simp add: os_makedirs_def empty_world_def)
  have resolved:
    "OSSFuzz_get_latest_build_name ?cfg ?env ?made
       = (Inr (Some ''curl-address-20230101.zip''), ?resolved)"
    by (simp add: OSSFuzz_get_latest_build_name_def stub_modules_def bytes_decode_def
          byte_in_def Let_def)
  have effects:
    "trace ?resolved
       = [Makedirs ''/tmp/run1/cifuzz-latest-build'',
          Urlopen ''https://storage.googleapis.com/clusterfuzz-builds/curl/curl-address-latest.version'']"
    by (simp add: OSSFuzz_get_latest_build_name_def VERSION_STRING_def CLUSTERFUZZ_BUILDS_def
          bytes_decode_def byte_in_def eval_defs)
  from OSSFuzz_download_latest_build_url [OF absent created resolved] effects
  show ?thesis
    by (simp add: stub_config_def stub_modules_def path_defs)
qed

subsection \<open>An unavailable build\<close>

text \<open>
  Claim C9 says that a failed fetch of the version file is never reported by an
  exception. \<^verbatim>\<open>get_latest_build_name\<close> catches \<^verbatim>\<open>urllib.error.HTTPError\<close> only: when
  \<^verbatim>\<open>urlopen\<close> fails with a \<^verbatim>\<open>URLError\<close> (the host cannot be reached), the exception
  reaches the caller.
\<close>

theorem OSSFuzz_get_latest_build_name_URLError_counterexample:
  "fst (OSSFuzz_get_latest_build_name (stub_config ''curl'' INTERNAL_GITHUB)
          (stub_modules True
             (Inl (Raised URLError ''<urlopen error [Errno -2] Name or service not known>'')))
          empty_world)
     = Inl (Raised URLError ''<urlopen error [Errno -2] Name or service not known>'')"
  by (simp add: OSSFuzz_get_latest_build_name_def stub_modules_def Let_def)

text \<open>
  Claim C9, amended. \<^verbatim>\<open>OSSFuzz.get_latest_build_name\<close> returns \<^verbatim>\<open>None\<close>, not an
  exception, when \<^verbatim>\<open>urlopen\<close> of the version file raises \<^verbatim>\<open>HTTPError\<close>; any other
  exception of \<^verbatim>\<open>urlopen\<close> is propagated; when \<^verbatim>\<open>urlopen\<close> succeeds and the body is
  well-formed UTF-8, it returns the body decoded as text, unchanged.
  \<^verbatim>\<open>download_latest_build\<close>, called when the build directory does not exist and
  \<^verbatim>\<open>os.makedirs\<close> creates it, returns \<^verbatim>\<open>None\<close>, not an exception: on ClusterFuzzLite
  when the filestore reports failure; on OSS-Fuzz when the version resolution returns
  \<^verbatim>\<open>None\<close>, or returns a name that is empty or whose fetch
  \<^verbatim>\<open>download_and_unpack_zip\<close> reports as failed.
\<close>

theorem build_unavailable_is_None:
  assumes "version_url = url_join (GCS_BASE_URL env)
                           [''clusterfuzz-builds'', project_name cfg,
                            project_name cfg @ ''-'' @ sanitizer cfg @ ''-latest.version'']"
    and "build_dir = get_build_dir parent_dir"
  shows "(urlopen env w version_url = Inl e \<and> cls e = HTTPError \<longrightarrow>
            fst (OSSFuzz_get_latest_build_name cfg env w) = Inr None) \<and>
         (urlopen env w version_url = Inl e \<and> cls e \<noteq> HTTPError \<longrightarrow>
            fst (OSSFuzz_get_latest_build_name cfg env w) = Inl e) \<and>
         (urlopen env w version_url = Inr body \<and> utf8_valid body \<longrightarrow>
            fst (OSSFuzz_get_latest_build_name cfg env w) = Inr (Some body)) \<and>
         (build_dir \<notin> dirs w \<and> os_makedirs build_dir w = (Inr (), w1) \<and>
          \<not> fs_download_latest_build fs w1 (''cifuzz-build-'' @ sanitizer cfg) build_dir \<longrightarrow>
            fst (ClusterFuzzLite_download_latest_build cfg fs parent_dir w) = Inr None) \<and>
         (build_dir \<notin> dirs w \<and> os_makedirs build_dir w = (Inr (), w1) \<and>
          fst (OSSFuzz_get_latest_build_name cfg env w1) = Inr None \<longrightarrow>
            fst (OSSFuzz_download_latest_build cfg env parent_dir w) = Inr None) \<and>
         (build_dir \<notin> dirs w \<and> os_makedirs build_dir w = (Inr (), w1) \<and>
          fst (OSSFuzz_get_latest_build_name cfg env w1) = Inr (Some b) \<and>
          (b = [] \<or>
           \<not> download_and_unpack_zip env (snd (OSSFuzz_get_latest_build_name cfg env w1))
               (url_join (GCS_BASE_URL env) [''clusterfuzz-builds'', project_name cfg, b])
               build_dir) \<longrightarrow>
            fst (OSSFuzz_download_latest_build cfg env parent_dir w) = Inr None)"
proof -
  have resolve:
    "(urlopen env w version_url = Inl e \<and> cls e = HTTPError \<longrightarrow>
        fst (OSSFuzz_get_latest_build_name cfg env w) = Inr None) \<and>
     (urlopen env w version_url = Inl e \<and> cls e \<noteq> HTTPError \<longrightarrow>
        fst (OSSFuzz_get_latest_build_name cfg env w) = Inl e) \<and>
     (urlopen env w version_url = Inr body \<and> utf8_valid body \<longrightarrow>
        fst (OSSFuzz_get_latest_build_name cfg env w) = Inr (Some body))"
    using assms(1)
    by (simp add: OSSFuzz_get_latest_build_name_def VERSION_STRING_def CLUSTERFUZZ_BUILDS_def
          bytes_decode_def Let_def)
  have lite:
    "fst (ClusterFuzzLite_download_latest_build cfg fs parent_dir w) = Inr None"
    if "build_dir \<notin> dirs w" and "os_makedirs build_dir w = (Inr (), w1)"
      and "\<not> fs_download_latest_build fs w1 (''cifuzz-build-'' @ sanitizer cfg) build_dir"
    using that ClusterFuzzLite_download_latest_build_created [of parent_dir w "()" w1 cfg fs]
    by (simp add: assms(2))
  obtain r w2 where g: "OSSFuzz_get_latest_build_name cfg env w1 = (r, w2)"
    by (cases "OSSFuzz_get_latest_build_name cfg env w1")
  have managed_none:
    "fst (OSSFuzz_download_latest_build cfg env parent_dir w) = Inr None"
    if "build_dir \<notin> dirs w" and "os_makedirs build_dir w = (Inr (), w1)"
      and "fst (OSSFuzz_get_latest_build_name cfg env w1) = Inr None"
    using that g OSSFuzz_download_latest_build_created [of parent_dir w "()" w1 cfg env r w2]
    by (simp add: assms(2))
  have managed_fail:
    "fst (OSSFuzz_download_latest_build cfg env parent_dir w) = Inr None"
    if "build_dir \<notin> dirs w" and "os_makedirs build_dir w = (Inr (), w1)"
      and "fst (OSSFuzz_get_latest_build_name cfg env w1) = Inr (Some b)"
      and "b = [] \<or>
           \<not> download_and_unpack_zip env (snd (OSSFuzz_get_latest_build_name cfg env w1))
               (url_join (GCS_BASE_URL env) [''clusterfuzz-builds'', project_name cfg, b])
               build_dir"
    using that g OSSFuzz_download_latest_build_created [of parent_dir w "()" w1 cfg env r w2]
    by (auto simp add: assms(2))
  from resolve lite managed_none managed_fail show ?thesis
    by blast
qed

theorem build_unavailable_is_None_witness:
  "fst (OSSFuzz_get_latest_build_name (stub_config ''curl'' INTERNAL_GITHUB)
          (stub_modules True (Inl (Raised HTTPError ''HTTP Error 404: Not Found''))) empty_world)
     = Inr None \<and>
   fst (OSSFuzz_get_latest_build_name (stub_config ''curl'' INTERNAL_GITHUB)
          (stub_modules True (Inl (Raised URLError ''unreachable''))) empty_world)
     = Inl (Raised URLError ''unreachable'') \<and>
   fst (OSSFuzz_get_latest_build_name (stub_config ''curl'' INTERNAL_GITHUB)
          (stub_modules False (Inr ''curl-address-20230101.zip'')) empty_world)
     = Inr (Some ''curl-address-20230101.zip'') \<and>
   fst (ClusterFuzzLite_download_latest_build
          (stub_config ''curl'' (Other_platform ''EXTERNAL_GITHUB''))
          (stub_filestore False None) ''/tmp/run1'' empty_world)
     = Inr None \<and>
   fst (OSSFuzz_download_latest_build (stub_config ''curl'' INTERNAL_GITHUB)
          (stub_modules True (Inl (Raised HTTPError ''HTTP Error 404: Not Found'')))
          ''/tmp/run1'' empty_world)
     = Inr None \<and>
   fst (OSSFuzz_download_latest_build (stub_config ''curl'' INTERNAL_GITHUB)
          (stub_modules False (Inr ''curl-address-20230101.zip'')) ''/tmp/run1'' empty_world)
     = Inr None \<and>
   fst (OSSFuzz_download_latest_build (stub_config ''curl'' INTERNAL_GITHUB)
          (stub_modules True (Inr [])) ''/tmp/run1'' empty_world)
     = Inr None"
proof -
  let ?cfg = "stub_config ''curl'' INTERNAL_GITHUB"
  let ?http = "stub_modules True (Inl (Raised HTTPError ''HTTP Error 404: Not Found''))"
  let ?url = "stub_modules True (Inl (Raised URLError ''unreachable''))"
  let ?bad = "stub_modules False (Inr ''curl-address-20230101.zip'')"
  let ?blank = "stub_modules True (Inr [])"
  let ?w1 = "snd (os_makedirs (get_build_dir ''/tmp/run1'') empty_world)"
  have absent: "get_build_dir ''/tmp/run1'' \<notin> dirs empty_world"
    by (simp add: empty_world_def)
  have created: "os_makedirs (get_build_dir ''/tmp/run1'') empty_world = (Inr (), ?w1)"
    by (simp add: os_makedirs_def empty_world_def)
  have ok: "utf8_valid ''curl-address-20230101.zip''"
    by (simp add: byte_in_def)
  have none: "fst (OSSFuzz_get_latest_build_name ?cfg ?http ?w1) = Inr None"
    by (simp add: OSSFuzz_get_latest_build_name_def stub_modules_def Let_def)
  have some: "fst (OSSFuzz_get_latest_build_name ?cfg ?bad ?w1)
                = Inr (Some ''curl-address-20230101.zip'')"
    by (simp add: OSSFuzz_get_latest_build_name_def stub_modules_def Let_def bytes_decode_def
          byte_in_def)
  have blank: "fst (OSSFuzz_get_latest_build_name ?cfg ?blank ?w1) = Inr (Some [])"
    by (simp add: OSSFuzz_get_latest_build_name_def stub_modules_def Let_def bytes_decode_def)
  note http = build_unavailable_is_None
      [OF refl refl, where cfg = ?cfg and env = ?http and w = empty_world
         and parent_dir = "''/tmp/run1''" and ?w1.0 = ?w1
         and e = "Raised HTTPError ''HTTP Error 404: Not Found''"]
  note url = build_unavailable_is_None
      [OF refl refl, where cfg = ?cfg and env = ?url and w = empty_world
         and e = "Raised URLError ''unreachable''"]
  note bad = build_unavailable_is_None
      [OF refl refl, where cfg = ?cfg and env = ?bad and w = empty_world
         and parent_dir = "''/tmp/run1''" and ?w1.0 = ?w1
         and body = "''curl-address-20230101.zip''" and b = "''curl-address-20230101.zip''"]
  note blnk = build_unavailable_is_None
      [OF refl refl, where cfg = ?cfg and env = ?blank and w = empty_world
         and parent_dir = "''/tmp/run1''" and ?w1.0 = ?w1 and b = "[]"]
  note lite = build_unavailable_is_None
      [OF refl refl,
       where cfg = "stub_config ''curl'' (Other_platform ''EXTERNAL_GITHUB'')"
         and fs = "stub_filestore False None" and w = empty_world
         and parent_dir = "''/tmp/run1''" and ?w1.0 = ?w1]
  have a: "fst (OSSFuzz_get_latest_build_name ?cfg ?http empty_world) = Inr None"
    using http by (simp add: stub_modules_def)
  have b: "fst (OSSFuzz_get_latest_build_name ?cfg ?url empty_world)
             = Inl (Raised URLError ''unreachable'')"
    using url by (simp add: stub_modules_def)
  have c: "fst (OSSFuzz_get_latest_build_name ?cfg ?bad empty_world)
             = Inr (Some ''curl-address-20230101.zip'')"
    using bad ok by (simp add: stub_modules_def)
  have d: "fst (ClusterFuzzLite_download_latest_build
                  (stub_config ''curl'' (Other_platform ''EXTERNAL_GITHUB''))
                  (stub_filestore False None) ''/tmp/run1'' empty_world) = Inr None"
    using lite absent created by (simp add: stub_filestore_def stub_config_def)
  have e: "fst (OSSFuzz_download_latest_build ?cfg ?http ''/tmp/run1'' empty_world) = Inr None"
    using http absent created none by simp
  have f: "fst (OSSFuzz_download_latest_build ?cfg ?bad ''/tmp/run1'' empty_world) = Inr None"
    using bad absent created some by (simp add: stub_modules_def)
  have g: "fst (OSSFuzz_download_latest_build ?cfg ?blank ''/tmp/run1'' empty_world) = Inr None"
    using blnk absent created blank by simp
  from a b c d e f g show ?thesis
    by simp
qed

subsection \<open>A failed download leaves the build directory behind\<close>




end
